theory Spec2Isabelle
  imports Complex_Main
begin

section \<open>Python values and errors\<close>

text \<open>
  Exceptions are values: every \<open>raise\<close> of the source, and every failing library call the
  source makes, is an \<open>Inl\<close> branch of the model.
\<close>

datatype error = ValueError | IndexError | RuntimeError

text \<open>
  \<open>xs[i]\<close> for a list and an index that is never negative (the loops below index with
  \<open>range\<close> values): Python raises IndexError out of range.
\<close>

definition getitem :: "'a list \<Rightarrow> nat \<Rightarrow> error + 'a" where
  "getitem xs i = (if i < length xs then Inr (xs ! i) else Inl IndexError)"

text \<open>
  \<open>x is False\<close> for an integer \<open>x\<close> (a \<open>len(...)\<close> result): \<open>is\<close> compares object
  identity, and no \<open>int\<close> object is the singleton \<open>False\<close>.
\<close>

definition is_False :: "int \<Rightarrow> bool" where
  "is_False x = False"

text \<open>
  \<open>a or b\<close> for \<open>a\<close> an optional integer: \<open>None\<close> and \<open>0\<close> are falsy, so \<open>b\<close> is the value;
  any other \<open>a\<close> is the value itself.
\<close>

definition py_or :: "int option \<Rightarrow> int \<Rightarrow> int" where
  "py_or a b = (case a of None \<Rightarrow> b | Some v \<Rightarrow> if v = 0 then b else v)"

section \<open>Modules\<close>

text \<open>
  A \<open>torch.nn.Module\<close> object: its identity (\<open>ident\<close>, what \<open>is\<close> and the \<open>memo\<close> set of
  \<open>modules()\<close> compare), what it is, and its registered submodules in order. The layers
  returned by the factories \<open>high_order_fc_layers\<close> and \<open>high_order_convolution_layers\<close>
  (module \<open>layers\<close>, not among the sources) are \<open>Layer l\<close>, with \<open>l\<close> whatever the factory
  returned; \<open>NonLinearity c\<close> is an object made by calling the configured \<open>non_linearity\<close>
  callable \<open>c\<close>.
\<close>

datatype ('l, 'c) body = Sequential | Layer 'l | NonLinearity 'c | Normalization

datatype ('l, 'c) module =
  Module (ident: nat) (body: "('l, 'c) body") (children: "('l, 'c) module list")

text \<open>
  The part of the interpreter state the constructors change: the next fresh object
  identity, and the keyword arguments of every layer a factory has built so far.
\<close>

record 'a state =
  next_id :: nat
  built :: "'a list"

definition new_module ::
  "('l, 'c) body \<Rightarrow> ('l, 'c) module list \<Rightarrow> 'a state \<Rightarrow> ('l, 'c) module \<times> 'a state" where
  "new_module b ms st = (Module (next_id st) b ms, st\<lparr>next_id := Suc (next_id st)\<rparr>)"

text \<open>
  One factory call \<open>factory(**kwargs)\<close>: the factory is a parameter (it may raise); a
  layer it returns is a new object, and the call is recorded in \<open>built\<close>.
\<close>

definition build_layer ::
  "('a \<Rightarrow> error + 'l) \<Rightarrow> 'a \<Rightarrow> 'a state \<Rightarrow> (error + ('l, 'c) module) \<times> 'a state" where
  "build_layer factory kwargs st =
     (case factory kwargs of
        Inl e \<Rightarrow> (Inl e, st)
      | Inr l \<Rightarrow> (Inr (Module (next_id st) (Layer l) []),
                  st\<lparr>next_id := Suc (next_id st), built := built st @ [kwargs]\<rparr>))"

record ('l, 'c) network =
  model :: "('l, 'c) module"

section \<open>HighOrderFullyConvolutionalNetwork\<close>

record 'f conv_kwargs =
  cv_layer_type :: string
  cv_n :: int
  cv_in_channels :: int
  cv_out_channels :: int
  cv_kernel_size :: int
  cv_segments :: int
  cv_rescale_output :: bool
  cv_periodicity :: "'f option"

text \<open>
  The keyword arguments of the \<open>i\<close>-th factory call, evaluated left to right as the
  source writes them; each subscript may raise IndexError.
\<close>

definition conv_layer_kwargs ::
  "string list \<Rightarrow> int list \<Rightarrow> int list \<Rightarrow> int list \<Rightarrow> int list \<Rightarrow> bool \<Rightarrow> 'f option \<Rightarrow> nat
     \<Rightarrow> error + 'f conv_kwargs" where
  "conv_layer_kwargs layer_type n channels segments kernel_size rescale_output periodicity i =
     (case getitem layer_type i of Inl e \<Rightarrow> Inl e | Inr lt \<Rightarrow>
      case getitem n i of Inl e \<Rightarrow> Inl e | Inr ni \<Rightarrow>
      case getitem channels i of Inl e \<Rightarrow> Inl e | Inr ci \<Rightarrow>
      case getitem channels (i + 1) of Inl e \<Rightarrow> Inl e | Inr co \<Rightarrow>
      case getitem kernel_size i of Inl e \<Rightarrow> Inl e | Inr ks \<Rightarrow>
      case getitem segments i of Inl e \<Rightarrow> Inl e | Inr sg \<Rightarrow>
        Inr \<lparr>cv_layer_type = lt, cv_n = ni, cv_in_channels = ci, cv_out_channels = co,
             cv_kernel_size = ks, cv_segments = sg, cv_rescale_output = rescale_output,
             cv_periodicity = periodicity\<rparr>)"

text \<open>
  The loop \<open>for i in range(len(channels) - 1)\<close>, over the indices still to do, with
  \<open>layer_list\<close> as accumulator. An exception leaves the loop with the state reached.
\<close>

fun conv_loop ::
  "('f conv_kwargs \<Rightarrow> error + 'l) \<Rightarrow> string list \<Rightarrow> int list \<Rightarrow> int list \<Rightarrow> int list
     \<Rightarrow> int list \<Rightarrow> bool \<Rightarrow> 'f option \<Rightarrow> ('l, 'c) module option \<Rightarrow> nat list
     \<Rightarrow> ('l, 'c) module list \<Rightarrow> 'f conv_kwargs state
     \<Rightarrow> (error + ('l, 'c) module list) \<times> 'f conv_kwargs state" where
  "conv_loop high_order_convolution_layers layer_type n channels segments kernel_size
       rescale_output periodicity normalization [] layer_list st = (Inr layer_list, st)"
| "conv_loop high_order_convolution_layers layer_type n channels segments kernel_size
       rescale_output periodicity normalization (i # rest) layer_list st =
     (let layer_list1 =
            (case normalization of None \<Rightarrow> layer_list | Some nm \<Rightarrow> layer_list @ [nm])
      in case conv_layer_kwargs layer_type n channels segments kernel_size
                rescale_output periodicity i of
           Inl e \<Rightarrow> (Inl e, st)
         | Inr kwargs \<Rightarrow>
             (case build_layer high_order_convolution_layers kwargs st of
                (Inl e, st1) \<Rightarrow> (Inl e, st1)
              | (Inr layer, st1) \<Rightarrow>
                  conv_loop high_order_convolution_layers layer_type n channels segments
                    kernel_size rescale_output periodicity normalization rest
                    (layer_list1 @ [layer]) st1))"

definition HighOrderFullyConvolutionalNetwork_init ::
  "('f conv_kwargs \<Rightarrow> error + 'l) \<Rightarrow> string list \<Rightarrow> int list \<Rightarrow> int list \<Rightarrow> int list
     \<Rightarrow> int list \<Rightarrow> bool \<Rightarrow> 'f option \<Rightarrow> ('l, 'c) module option \<Rightarrow> 'f conv_kwargs state
     \<Rightarrow> (error + ('l, 'c) network) \<times> 'f conv_kwargs state" where
  "HighOrderFullyConvolutionalNetwork_init high_order_convolution_layers layer_type n
       channels segments kernel_size rescale_output periodicity normalization st =
     (if length channels < 2 then (Inl ValueError, st)
      else if length channels = length segments \<and> length segments = length kernel_size
              \<and> length kernel_size = length layer_type \<and> length layer_type = length n
              \<and> is_False (int (length n))
        then (Inl ValueError, st)
      else if length channels = length n + 1 \<and> is_False (int (length n + 1))
        then (Inl ValueError, st)
      else
        (case conv_loop high_order_convolution_layers layer_type n channels segments
                kernel_size rescale_output periodicity normalization
                [0 ..< length channels - 1] [] st of
           (Inl e, st1) \<Rightarrow> (Inl e, st1)
         | (Inr layer_list, st1) \<Rightarrow>
             (case new_module Sequential layer_list st1 of
                (m, st2) \<Rightarrow> (Inr \<lparr>model = m\<rparr>, st2))))"

text \<open>
  \<open>forward\<close> of either network class is \<open>self.model(x)\<close>; an \<open>nn.Sequential\<close> calls its
  entries in order, each on the result of the one before. What one entry computes is
  the parameter \<open>run\<close>.
\<close>

definition forward :: "(('l, 'c) module \<Rightarrow> 'x \<Rightarrow> 'x) \<Rightarrow> ('l, 'c) network \<Rightarrow> 'x \<Rightarrow> 'x" where
  "forward run net x = fold run (children (model net)) x"

text \<open>
  Modelled from the spec: the layer factory \<open>high_order_convolution_layers\<close> (module
  \<open>layers\<close>, not among the sources). The spec (section 6) says that, given the keyword
  arguments, it returns a constructed layer for them; the model's layer is the record
  of its keyword arguments. It is the factory of the closed examples; the theorems
  hold for every factory.
\<close>

definition conv_factory :: "'f conv_kwargs \<Rightarrow> error + 'f conv_kwargs" where
  "conv_factory kwargs = Inr kwargs"

text \<open>
  The shape of a finished \<open>layer_list\<close>: before each layer the entries \<open>pre\<close> (the
  normalization, when there is one), then the layer, a new object whose identity is
  the next fresh one.
\<close>

fun conv_layout :: "('l, 'c) module list \<Rightarrow> nat \<Rightarrow> 'l list \<Rightarrow> ('l, 'c) module list" where
  "conv_layout pre k [] = []"
| "conv_layout pre k (l # ls) = pre @ [Module k (Layer l) []] @ conv_layout pre (Suc k) ls"

section \<open>HighOrderMLP\<close>

record 'f fc_kwargs =
  fc_layer_type :: string
  fc_n :: int
  fc_in_features :: int
  fc_out_features :: int
  fc_segments :: "int option"
  fc_rescale_output :: bool
  fc_scale :: 'f
  fc_periodicity :: "'f option"

text \<open>
  \<open>if non_linearity is not None: layer_list.append(non_linearity())\<close>: the call makes
  a new object each time.
\<close>

definition append_non_linearity ::
  "'c option \<Rightarrow> ('l, 'c) module list \<Rightarrow> 'a state \<Rightarrow> ('l, 'c) module list \<times> 'a state" where
  "append_non_linearity non_linearity layer_list st =
     (case non_linearity of
        None \<Rightarrow> (layer_list, st)
      | Some c \<Rightarrow> (case new_module (NonLinearity c) [] st of
                    (m, st1) \<Rightarrow> (layer_list @ [m], st1)))"

text \<open>
  The loop \<open>for i in range(hidden_layers)\<close>, by the number of rounds still to do; the
  body does not use \<open>i\<close>, and the keyword arguments of the hidden layer are the same in
  every round.
\<close>

fun hidden_loop ::
  "('f fc_kwargs \<Rightarrow> error + 'l) \<Rightarrow> 'f fc_kwargs \<Rightarrow> ('l, 'c) module option \<Rightarrow> 'c option \<Rightarrow> nat
     \<Rightarrow> ('l, 'c) module list \<Rightarrow> 'f fc_kwargs state
     \<Rightarrow> (error + ('l, 'c) module list) \<times> 'f fc_kwargs state" where
  "hidden_loop high_order_fc_layers kwargs normalization non_linearity 0 layer_list st =
     (Inr layer_list, st)"
| "hidden_loop high_order_fc_layers kwargs normalization non_linearity (Suc k) layer_list st =
     (let layer_list1 =
            (case normalization of None \<Rightarrow> layer_list | Some nm \<Rightarrow> layer_list @ [nm])
      in case append_non_linearity non_linearity layer_list1 st of
           (layer_list2, st1) \<Rightarrow>
             (case build_layer high_order_fc_layers kwargs st1 of
                (Inl e, st2) \<Rightarrow> (Inl e, st2)
              | (Inr hidden_layer, st2) \<Rightarrow>
                  hidden_loop high_order_fc_layers kwargs normalization non_linearity k
                    (layer_list2 @ [hidden_layer]) st2))"

text \<open>
  The constructor. \<open>n\<close> is an integer (the annotation \<open>str\<close> of the source is not what
  its callers pass); a negative \<open>hidden_layers\<close> gives an empty \<open>range\<close>. The \<open>print\<close> of
  the layer list is not modelled.
\<close>

definition HighOrderMLP_init ::
  "('f fc_kwargs \<Rightarrow> error + 'l) \<Rightarrow> string \<Rightarrow> int \<Rightarrow> int \<Rightarrow> int \<Rightarrow> int \<Rightarrow> int \<Rightarrow> 'f
     \<Rightarrow> int option \<Rightarrow> int option \<Rightarrow> int option \<Rightarrow> bool \<Rightarrow> 'f option \<Rightarrow> 'c option
     \<Rightarrow> int option \<Rightarrow> int option \<Rightarrow> int option \<Rightarrow> ('l, 'c) module option
     \<Rightarrow> 'f fc_kwargs state \<Rightarrow> (error + ('l, 'c) network) \<times> 'f fc_kwargs state" where
  "HighOrderMLP_init high_order_fc_layers layer_type n in_width out_width hidden_layers
       hidden_width scale n_in n_out n_hidden rescale_output periodicity non_linearity
       in_segments out_segments hidden_segments normalization st =
     (let n_in = py_or n_in n;
          n_hidden = py_or n_hidden n;
          n_out = py_or n_out n
      in case build_layer high_order_fc_layers
                \<lparr>fc_layer_type = layer_type, fc_n = n_in, fc_in_features = in_width,
                 fc_out_features = hidden_width, fc_segments = in_segments,
                 fc_rescale_output = rescale_output, fc_scale = scale,
                 fc_periodicity = periodicity\<rparr> st of
           (Inl e, st1) \<Rightarrow> (Inl e, st1)
         | (Inr input_layer, st1) \<Rightarrow>
      (case hidden_loop high_order_fc_layers
                \<lparr>fc_layer_type = layer_type, fc_n = n_hidden, fc_in_features = hidden_width,
                 fc_out_features = hidden_width, fc_segments = hidden_segments,
                 fc_rescale_output = rescale_output, fc_scale = scale,
                 fc_periodicity = periodicity\<rparr>
                normalization non_linearity (nat hidden_layers) [input_layer] st1 of
           (Inl e, st2) \<Rightarrow> (Inl e, st2)
         | (Inr layer_list, st2) \<Rightarrow>
      (case append_non_linearity non_linearity layer_list st2 of (layer_list1, st3) \<Rightarrow>
      (case append_non_linearity non_linearity layer_list1 st3 of (layer_list2, st4) \<Rightarrow>
      (case build_layer high_order_fc_layers
                \<lparr>fc_layer_type = layer_type, fc_n = n_out, fc_in_features = hidden_width,
                 fc_out_features = out_width, fc_segments = out_segments,
                 fc_rescale_output = rescale_output, fc_scale = scale,
                 fc_periodicity = periodicity\<rparr> st4 of
           (Inl e, st5) \<Rightarrow> (Inl e, st5)
         | (Inr output_layer, st5) \<Rightarrow>
      (case new_module Sequential (layer_list2 @ [output_layer]) st5 of
           (m, st6) \<Rightarrow> (Inr \<lparr>model = m\<rparr>, st6)))))))"

text \<open>
  Modelled from the spec: the layer factory \<open>high_order_fc_layers\<close> (module \<open>layers\<close>,
  not among the sources), modelled as \<open>conv_factory\<close> is.
\<close>

definition fc_factory :: "'f fc_kwargs \<Rightarrow> error + 'f fc_kwargs" where
  "fc_factory kwargs = Inr kwargs"

text \<open>
  The entries one round of the hidden loop appends, and those of all rounds: \<open>pre\<close> is
  the normalization (when there is one), \<open>k\<close> the next fresh identity.
\<close>

fun hidden_layout ::
  "('l, 'c) module list \<Rightarrow> 'c option \<Rightarrow> nat \<Rightarrow> 'l list \<Rightarrow> ('l, 'c) module list" where
  "hidden_layout pre non_linearity k [] = []"
| "hidden_layout pre None k (l # ls) =
     pre @ [Module k (Layer l) []] @ hidden_layout pre None (Suc k) ls"
| "hidden_layout pre (Some c) k (l # ls) =
     pre @ [Module k (NonLinearity c) [], Module (Suc k) (Layer l) []]
       @ hidden_layout pre (Some c) (Suc (Suc k)) ls"

text \<open>How many objects one round of the hidden loop creates.\<close>

definition round_objects :: "'c option \<Rightarrow> nat" where
  "round_objects non_linearity = (case non_linearity of None \<Rightarrow> 1 | Some c \<Rightarrow> 2)"

text \<open>
  The entries after the hidden loop: the nonlinearity twice (when there is one), then
  the output layer.
\<close>

definition final_layout :: "'c option \<Rightarrow> nat \<Rightarrow> 'l \<Rightarrow> ('l, 'c) module list" where
  "final_layout non_linearity k lo =
     (case non_linearity of
        None \<Rightarrow> [Module k (Layer lo) []]
      | Some c \<Rightarrow> [Module k (NonLinearity c) [], Module (Suc k) (NonLinearity c) [],
                   Module (Suc (Suc k)) (Layer lo) []])"

section \<open>interpolate\_high\_order\_mlp\<close>

text \<open>
  \<open>Module.modules()\<close> of torch: the module itself, then the modules of each registered
  submodule in order, depth first; \<open>memo\<close> holds the objects already produced, and an
  object in \<open>memo\<close> is not produced again (an instance registered twice appears once).
\<close>

fun named_modules :: "('l, 'c) module \<Rightarrow> nat list \<Rightarrow> ('l, 'c) module list \<times> nat list"
  and named_modules_of :: "('l, 'c) module list \<Rightarrow> nat list \<Rightarrow> ('l, 'c) module list \<times> nat list"
  where
  "named_modules (Module i b ms) memo =
     (if i \<in> set memo then ([], memo)
      else (case named_modules_of ms (i # memo) of
              (found, memo1) \<Rightarrow> (Module i b ms # found, memo1)))"
| "named_modules_of [] memo = ([], memo)"
| "named_modules_of (m # ms) memo =
     (case named_modules m memo of
        (found, memo1) \<Rightarrow>
          (case named_modules_of ms memo1 of
             (found1, memo2) \<Rightarrow> (found @ found1, memo2)))"












text \<open>
  Networks of the closed examples, as \<open>HighOrderMLP\<close> builds them when the layer a factory
  returns is written as its order: three layers (one hidden layer) and two layers (no
  hidden layer) of order 2 without nonlinearity, and two layers with a nonlinearity, of
  order 2 and of order 4. In \<open>weights_0\<close> every object holds a weight that names it.
\<close>

abbreviation mlp_3_layers :: "(int, string) network" where
  "mlp_3_layers \<equiv>
     \<lparr>model = Module 3 Sequential
        [Module 0 (Layer 2) [], Module 1 (Layer 2) [], Module 2 (Layer 2) []]\<rparr>"

abbreviation mlp_2_layers :: "(int, string) network" where
  "mlp_2_layers \<equiv>
     \<lparr>model = Module 6 Sequential [Module 4 (Layer 2) [], Module 5 (Layer 2) []]\<rparr>"

abbreviation mlp_2_layers_relu :: "(int, string) network" where
  "mlp_2_layers_relu \<equiv>
     \<lparr>model = Module 11 Sequential
        [Module 7 (Layer 2) [], Module 8 (NonLinearity ''ReLU'') [],
         Module 9 (NonLinearity ''ReLU'') [], Module 10 (Layer 2) []]\<rparr>"

abbreviation mlp_2_layers_relu_order_4 :: "(int, string) network" where
  "mlp_2_layers_relu_order_4 \<equiv>
     \<lparr>model = Module 16 Sequential
        [Module 12 (Layer 4) [], Module 13 (NonLinearity ''ReLU'') [],
         Module 14 (NonLinearity ''ReLU'') [], Module 15 (Layer 4) []]\<rparr>"



section \<open>Expansion2d\<close>

text \<open>
  A tensor: its shape and its element at each index (one position per axis). The
  elements are only moved, never computed with, so their type is left open.
\<close>

record 'a tensor =
  shape :: "nat list"
  elem :: "nat list \<Rightarrow> 'a"

text \<open>
  Row-major position of an index in a shape, and the index at a position: the order
  in which \<open>torch.reshape\<close> reads the elements of its argument and fills its result.
\<close>

fun ravel :: "nat list \<Rightarrow> nat list \<Rightarrow> nat" where
  "ravel (d # ds) (i # idx) = i * prod_list ds + ravel ds idx"
| "ravel ds idx = 0"

fun unravel :: "nat list \<Rightarrow> nat \<Rightarrow> nat list" where
  "unravel [] k = []"
| "unravel (d # ds) k = (k div prod_list ds) # unravel ds (k mod prod_list ds)"

fun position :: "nat \<Rightarrow> nat list \<Rightarrow> nat" where
  "position a [] = 0"
| "position a (d # ds) = (if a = d then 0 else Suc (position a ds))"

text \<open>
  \<open>t.permute(*dims)\<close>: axis \<open>k\<close> of the result is axis \<open>dims[k]\<close> of \<open>t\<close>; torch raises
  RuntimeError unless \<open>dims\<close> names every axis of \<open>t\<close> once.
\<close>

definition permute :: "nat list \<Rightarrow> 'a tensor \<Rightarrow> error + 'a tensor" where
  "permute dims t =
     (if length dims = length (shape t) \<and> distinct dims
         \<and> list_all (\<lambda>d. d < length (shape t)) dims
      then Inr \<lparr>shape = map (\<lambda>d. shape t ! d) dims,
                elem = (\<lambda>idx. elem t (map (\<lambda>a. idx ! position a dims) [0 ..< length dims]))\<rparr>
      else Inl RuntimeError)"

text \<open>
  \<open>torch.reshape(t, new)\<close>: the same elements in the same row-major order; torch raises
  RuntimeError when the number of elements differs.
\<close>

definition reshape :: "nat list \<Rightarrow> 'a tensor \<Rightarrow> error + 'a tensor" where
  "reshape new t =
     (if prod_list new = prod_list (shape t)
      then Inr \<lparr>shape = new, elem = (\<lambda>idx. elem t (unravel (shape t) (ravel new idx)))\<rparr>
      else Inl RuntimeError)"

text \<open>
  \<open>Expansion2d.__call__\<close>. The basis is the object given to the constructor, a
  parameter; it may raise. After the first \<open>permute\<close> has succeeded \<open>res\<close> has five axes,
  so the subscripts \<open>res.shape[0]\<close> to \<open>res.shape[4]\<close> are in range.
\<close>

definition Expansion2d_call ::
  "('a tensor \<Rightarrow> error + 'b tensor) \<Rightarrow> 'a tensor \<Rightarrow> error + 'b tensor" where
  "Expansion2d_call basis inputs =
     (case basis inputs of Inl e \<Rightarrow> Inl e | Inr res \<Rightarrow>
      case permute [1, 3, 4, 2, 0] res of Inl e \<Rightarrow> Inl e | Inr res1 \<Rightarrow>
      case reshape [shape res1 ! 0, shape res1 ! 1, shape res1 ! 2,
                    shape res1 ! 3 * shape res1 ! 4] res1 of Inl e \<Rightarrow> Inl e | Inr res2 \<Rightarrow>
      permute [0, 3, 1, 2] res2)"

text \<open>
  Modelled from the spec: the basis objects \<open>LagrangeExpand(n)\<close> and \<open>FourierExpand(n)\<close>
  (modules \<open>LagrangePolynomial\<close> and \<open>PolynomialLayers\<close>, not among the sources). The spec
  (sections 4.1 and 4.2) says that a basis of order \<open>n\<close> gives \<open>n\<close> coefficients for each
  element of its input; \<open>coef j\<close> is the \<open>j\<close>-th coefficient function. Where the new axis
  goes is read off the code: the first \<open>permute\<close> of \<open>Expansion2d.__call__\<close> moves axis 0
  behind the channel axis, so the \<open>n\<close> coefficient tensors are stacked along a new first
  axis.
\<close>

definition stack_basis :: "nat \<Rightarrow> (nat \<Rightarrow> 'a \<Rightarrow> 'b) \<Rightarrow> 'a tensor \<Rightarrow> error + 'b tensor" where
  "stack_basis n coef x =
     Inr \<lparr>shape = n # shape x, elem = (\<lambda>idx. coef (hd idx) (elem x (tl idx)))\<rparr>"

text \<open>The two Lagrange polynomials of order 2 on the nodes \<open>-1\<close> and \<open>1\<close>.\<close>

definition lagrange_2 :: "nat \<Rightarrow> real \<Rightarrow> real" where
  "lagrange_2 j x = (if j = 0 then (1 - x) / 2 else (1 + x) / 2)"

text \<open>An input of one image with two channels, one row and two columns.\<close>

abbreviation inputs_1_2_1_2 :: "real tensor" where
  "inputs_1_2_1_2 \<equiv>
     \<lparr>shape = [1, 2, 1, 2], elem = (\<lambda>idx. real (2 * (idx ! 1) + idx ! 3) / 4)\<rparr>"

section \<open>Construction of the convolutional network\<close>

lemma build_layer_Inr:
  "build_layer factory kwargs st = (Inr m, st1) \<Longrightarrow>
   \<exists>l. factory kwargs = Inr l \<and> m = Module (next_id st) (Layer l) []
       \<and> st1 = st\<lparr>next_id := Suc (next_id st), built := built st @ [kwargs]\<rparr>"
  by (auto simp: build_layer_def split: sum.splits)

lemma conv_loop_Inr:
  "conv_loop mk layer_type n channels segments kernel_size rescale_output periodicity
     normalization idxs (acc :: ('l, 'c) module list) st = (Inr layer_list, st1) \<Longrightarrow>
   \<exists>ls. length ls = length idxs
      \<and> layer_list = acc @ conv_layout (case normalization of None \<Rightarrow> [] | Some nm \<Rightarrow> [nm])
                               (next_id st) ls
      \<and> next_id st1 = next_id st + length idxs
      \<and> length (built st1) = length (built st) + length idxs"
proof (induction idxs arbitrary: acc st)
  case Nil
  then show ?case by simp
next
  case (Cons i rest)
  let ?pre = "case normalization of None \<Rightarrow> [] | Some nm \<Rightarrow> [nm]"
  from Cons.prems obtain kwargs where
    kw: "conv_layer_kwargs layer_type n channels segments kernel_size rescale_output
           periodicity i = Inr kwargs"
    by (auto split: sum.splits)
  from Cons.prems kw obtain layer :: "('l, 'c) module" and st2 where
    bl: "build_layer mk kwargs st = (Inr layer, st2)"
    by (auto split: sum.splits prod.splits)
  from build_layer_Inr [OF bl] obtain l where
    l: "layer = Module (next_id st) (Layer l) []"
       "st2 = st\<lparr>next_id := Suc (next_id st), built := built st @ [kwargs]\<rparr>"
    by blast
  have acc1: "(case normalization of None \<Rightarrow> acc | Some nm \<Rightarrow> acc @ [nm]) = acc @ ?pre"
    by (simp split: option.splits)
  from Cons.prems kw bl have rest:
    "conv_loop mk layer_type n channels segments kernel_size rescale_output periodicity
       normalization rest ((acc @ ?pre) @ [layer]) st2 = (Inr layer_list, st1)"
    by (simp add: acc1)
  from Cons.IH [OF rest] obtain ls where
    ls: "length ls = length rest"
        "layer_list = ((acc @ ?pre) @ [layer]) @ conv_layout ?pre (next_id st2) ls"
        "next_id st1 = next_id st2 + length rest"
        "length (built st1) = length (built st2) + length rest"
    by blast
  have "length (l # ls) = length (i # rest)" using ls(1) by simp
  moreover have "layer_list = acc @ conv_layout ?pre (next_id st) (l # ls)"
    using ls(2) l by simp
  moreover have "next_id st1 = next_id st + length (i # rest)" using ls(3) l(2) by simp
  moreover have "length (built st1) = length (built st) + length (i # rest)"
    using ls(4) l(2) by simp
  ultimately show ?case by blast
qed

lemma conv_layout_length: "length (conv_layout [nm] k ls) = 2 * length ls"
  by (induction ls arbitrary: k) simp_all

lemma conv_layout_nth:
  "i < length ls \<Longrightarrow>
   conv_layout [nm] k ls ! (2 * i) = nm
   \<and> conv_layout [nm] k ls ! (2 * i + 1) = Module (k + i) (Layer (ls ! i)) []"
proof (induction ls arbitrary: k i)
  case Nil
  then show ?case by simp
next
  case (Cons l ls)
  show ?case
  proof (cases i)
    case 0
    then show ?thesis by simp
  next
    case (Suc j)
    with Cons.prems have j: "j < length ls" by simp
    from Cons.IH [OF j, of "Suc k"] Suc show ?thesis by simp
  qed
qed

lemma conv_init_Inr:
  assumes "HighOrderFullyConvolutionalNetwork_init mk layer_type n channels segments
             kernel_size rescale_output periodicity normalization st = (Inr net, st2)"
  shows "\<exists>ls. length ls = length channels - 1
           \<and> model net = Module (next_id st + (length channels - 1)) Sequential
                 (conv_layout (case normalization of None \<Rightarrow> [] | Some nm \<Rightarrow> [nm])
                    (next_id st) ls)
           \<and> next_id st2 = next_id st + (length channels - 1) + 1
           \<and> length (built st2) = length (built st) + (length channels - 1)"
proof -
  from assms obtain layer_list st1 where
    loop: "conv_loop mk layer_type n channels segments kernel_size rescale_output
             periodicity normalization [0 ..< length channels - 1] [] st
           = (Inr layer_list, st1)"
    and net: "net = \<lparr>model = Module (next_id st1) Sequential layer_list\<rparr>"
    and st2: "st2 = st1\<lparr>next_id := Suc (next_id st1)\<rparr>"
    by (auto simp: HighOrderFullyConvolutionalNetwork_init_def new_module_def is_False_def
             split: if_splits sum.splits prod.splits)
  from conv_loop_Inr [OF loop] obtain ls where
    ls: "length ls = length channels - 1"
        "layer_list = conv_layout (case normalization of None \<Rightarrow> [] | Some nm \<Rightarrow> [nm])
                        (next_id st) ls"
        "next_id st1 = next_id st + (length channels - 1)"
        "length (built st1) = length (built st) + (length channels - 1)"
    by auto
  show ?thesis using ls net st2 by auto
qed

text \<open>
  C5. A \<open>channels\<close> list with fewer than two entries makes the constructor raise
  ValueError, and the state is the one it started from: no factory was called, so no
  layer was built.
\<close>

theorem C5_short_channels_raise:
  "length channels < 2 \<Longrightarrow>
   HighOrderFullyConvolutionalNetwork_init high_order_convolution_layers layer_type n
     channels segments kernel_size rescale_output periodicity normalization st
   = (Inl ValueError, st)"
  by (simp add: HighOrderFullyConvolutionalNetwork_init_def)

text \<open>
  A one-entry \<open>channels\<close> list: the constructor raises and leaves the state as it was.
\<close>

theorem C5_witness:
  "length [3 :: int] < 2
   \<and> HighOrderFullyConvolutionalNetwork_init conv_factory [''polynomial''] [2] [3] [1] [5]
       False (None :: real option) (None :: (real conv_kwargs, string) module option)
       \<lparr>next_id = 0, built = []\<rparr>
     = (Inl ValueError, \<lparr>next_id = 0, built = []\<rparr>)"
proof -
  have h: "length [3 :: int] < 2" by simp
  from C5_short_channels_raise [OF h] h show ?thesis by blast
qed


text \<open>
  At the spec's own example, an empty \<open>n\<close>, the exception is the IndexError of the
  subscript \<open>n[0]\<close> inside the loop, not the ValueError of the checks.
\<close>

lemma empty_n_raises_IndexError:
  "HighOrderFullyConvolutionalNetwork_init conv_factory [''polynomial''] [] [1, 2] [1]
     [3] False (None :: real option) (None :: (real conv_kwargs, string) module option)
     \<lparr>next_id = 0, built = []\<rparr>
   = (Inl IndexError, \<lparr>next_id = 0, built = []\<rparr>)"
  by (simp add: HighOrderFullyConvolutionalNetwork_init_def is_False_def
        conv_layer_kwargs_def getitem_def)

text \<open>
  C9. A HighOrderFullyConvolutionalNetwork constructed with a normalization \<open>nm\<close>: its
  layer sequence has two entries per layer, the object \<open>nm\<close> itself and then the layer, a
  new object; so \<open>nm\<close> is the first entry and a layer the last one. The constructor
  creates one object per layer and the \<open>Sequential\<close>, and no other; \<open>forward\<close> applies
  \<open>nm\<close> to the network's input first.
\<close>

theorem C9_normalization_before_every_layer:
  assumes "HighOrderFullyConvolutionalNetwork_init high_order_convolution_layers layer_type
             n channels segments kernel_size rescale_output periodicity (Some nm) st
           = (Inr net, st2)"
  shows "length (children (model net)) = 2 * (length channels - 1)
         \<and> (\<forall>i < length channels - 1.
               children (model net) ! (2 * i) = nm
             \<and> (\<exists>l. children (model net) ! (2 * i + 1)
                       = Module (next_id st + i) (Layer l) []))
         \<and> next_id st2 = next_id st + (length channels - 1) + 1
         \<and> forward run net x = fold run (tl (children (model net))) (run nm x)"
proof -
  from conv_init_Inr [OF assms] obtain ls where
    len: "length ls = length channels - 1"
    and ch: "children (model net) = conv_layout [nm] (next_id st) ls"
    and nx: "next_id st2 = next_id st + (length channels - 1) + 1"
    by auto
  from assms have "\<not> length channels < 2"
    by (auto simp: HighOrderFullyConvolutionalNetwork_init_def split: if_splits)
  with len obtain l rest where lr: "ls = l # rest" by (cases ls) auto
  have a: "length (children (model net)) = 2 * (length channels - 1)"
    using ch len by (simp add: conv_layout_length)
  have b: "children (model net) ! (2 * i) = nm
             \<and> (\<exists>l. children (model net) ! (2 * i + 1)
                       = Module (next_id st + i) (Layer l) [])"
    if "i < length channels - 1" for i
    using conv_layout_nth [of i ls nm "next_id st"] that len ch by auto
  have c: "forward run net x = fold run (tl (children (model net))) (run nm x)"
    using ch lr by (simp add: forward_def)
  from a b nx c show ?thesis by blast
qed

text \<open>
  Three channels, two layers, one normalization object.
\<close>

theorem C9_witness:
  "\<exists>net st2.
     HighOrderFullyConvolutionalNetwork_init conv_factory [''polynomial'', ''polynomial'']
       [3, 3] [1, 8, 16] [2, 2] [5, 5] False (None :: real option)
       (Some (Module 0 Normalization [] :: (real conv_kwargs, string) module))
       \<lparr>next_id = 1, built = []\<rparr> = (Inr net, st2)
     \<and> length (children (model net)) = 4
     \<and> children (model net) ! 0 = Module 0 Normalization []
     \<and> children (model net) ! 2 = Module 0 Normalization []
     \<and> (\<exists>l. children (model net) ! 3 = Module 2 (Layer l) [])
     \<and> next_id st2 = 4"
proof -
  have "\<exists>net st2.
     HighOrderFullyConvolutionalNetwork_init conv_factory [''polynomial'', ''polynomial'']
       [3, 3] [1, 8, 16] [2, 2] [5, 5] False (None :: real option)
       (Some (Module 0 Normalization [] :: (real conv_kwargs, string) module))
       \<lparr>next_id = 1, built = []\<rparr> = (Inr net, st2)"
    by (simp add: HighOrderFullyConvolutionalNetwork_init_def is_False_def
          conv_layer_kwargs_def getitem_def build_layer_def conv_factory_def new_module_def
          upt_rec)
  then obtain net st2 where h:
    "HighOrderFullyConvolutionalNetwork_init conv_factory [''polynomial'', ''polynomial'']
       [3, 3] [1, 8, 16] [2, 2] [5, 5] False (None :: real option)
       (Some (Module 0 Normalization [] :: (real conv_kwargs, string) module))
       \<lparr>next_id = 1, built = []\<rparr> = (Inr net, st2)"
    by blast
  note c = C9_normalization_before_every_layer [OF h, of "\<lambda>m u. u" "()"]
  have "length (children (model net)) = 4
     \<and> children (model net) ! 0 = Module 0 Normalization []
     \<and> children (model net) ! 2 = Module 0 Normalization []
     \<and> (\<exists>l. children (model net) ! 3 = Module 2 (Layer l) [])
     \<and> next_id st2 = 4"
  proof -
    from c have len: "length (children (model net)) = 4" and nx: "next_id st2 = 4"
      by (simp_all add: eval_nat_numeral)
    from c have all: "\<forall>i < 2. children (model net) ! (2 * i) = Module 0 Normalization []
             \<and> (\<exists>l. children (model net) ! (2 * i + 1) = Module (1 + i) (Layer l) [])"
      by simp
    from all [rule_format, of 0] have z: "children (model net) ! 0 = Module 0 Normalization []"
      by simp
    from all [rule_format, of 1] have o: "children (model net) ! 2 = Module 0 Normalization []"
      "\<exists>l. children (model net) ! 3 = Module 2 (Layer l) []"
      by (simp_all add: eval_nat_numeral)
    from len z o nx show ?thesis by blast
  qed
  with h show ?thesis by blast
qed

section \<open>Construction of the fully connected network\<close>

lemma append_non_linearity_None:
  "append_non_linearity None layer_list st = (layer_list, st)"
  by (simp add: append_non_linearity_def)

lemma append_non_linearity_Some:
  "append_non_linearity (Some c) layer_list st =
     (layer_list @ [Module (next_id st) (NonLinearity c) []],
      st\<lparr>next_id := Suc (next_id st)\<rparr>)"
  by (simp add: append_non_linearity_def new_module_def)

lemma hidden_loop_Inr:
  "hidden_loop mk kwargs normalization non_linearity k (acc :: ('l, 'c) module list) st
     = (Inr layer_list, st1) \<Longrightarrow>
   \<exists>ls. length ls = k \<and> (\<forall>l \<in> set ls. mk kwargs = Inr l)
      \<and> layer_list = acc @ hidden_layout (case normalization of None \<Rightarrow> [] | Some nm \<Rightarrow> [nm])
                               non_linearity (next_id st) ls
      \<and> next_id st1 = next_id st + k * round_objects non_linearity
      \<and> built st1 = built st @ replicate k kwargs"
proof (induction k arbitrary: acc st)
  case 0
  then show ?case by simp
next
  case (Suc k)
  let ?pre = "case normalization of None \<Rightarrow> [] | Some nm \<Rightarrow> [nm]"
  have acc1: "(case normalization of None \<Rightarrow> acc | Some nm \<Rightarrow> acc @ [nm]) = acc @ ?pre"
    by (simp split: option.splits)
  obtain acc2 :: "('l, 'c) module list" and sta where
    anl: "append_non_linearity non_linearity (acc @ ?pre) st = (acc2, sta)"
    by (cases "append_non_linearity non_linearity (acc @ ?pre) st") blast
  from Suc.prems anl obtain layer :: "('l, 'c) module" and stb where
    bl: "build_layer mk kwargs sta = (Inr layer, stb)"
    by (auto simp: acc1 split: sum.splits prod.splits)
  from build_layer_Inr [OF bl] obtain l where
    l: "mk kwargs = Inr l" "layer = Module (next_id sta) (Layer l) []"
       "stb = sta\<lparr>next_id := Suc (next_id sta), built := built sta @ [kwargs]\<rparr>"
    by blast
  from Suc.prems anl bl have rest:
    "hidden_loop mk kwargs normalization non_linearity k (acc2 @ [layer]) stb
       = (Inr layer_list, st1)"
    by (simp add: acc1)
  from Suc.IH [OF rest] obtain ls where
    ls: "length ls = k" "\<forall>l \<in> set ls. mk kwargs = Inr l"
        "layer_list = (acc2 @ [layer]) @ hidden_layout ?pre non_linearity (next_id stb) ls"
        "next_id st1 = next_id stb + k * round_objects non_linearity"
        "built st1 = built stb @ replicate k kwargs"
    by blast
  have a: "length (l # ls) = Suc k" using ls(1) by simp
  have b: "\<forall>x \<in> set (l # ls). mk kwargs = Inr x" using ls(2) l(1) by simp
  have c: "layer_list = acc @ hidden_layout ?pre non_linearity (next_id st) (l # ls)
           \<and> next_id st1 = next_id st + Suc k * round_objects non_linearity
           \<and> built st1 = built st @ replicate (Suc k) kwargs"
  proof (cases non_linearity)
    case None
    with anl have "acc2 = acc @ ?pre" "sta = st"
      by (simp_all add: append_non_linearity_None)
    with ls(3,4,5) l None show ?thesis
      by (simp add: round_objects_def replicate_app_Cons_same)
  next
    case (Some c)
    with anl have "acc2 = (acc @ ?pre) @ [Module (next_id st) (NonLinearity c) []]"
      "sta = st\<lparr>next_id := Suc (next_id st)\<rparr>"
      by (simp_all add: append_non_linearity_Some)
    with ls(3,4,5) l Some show ?thesis
      by (simp add: round_objects_def replicate_app_Cons_same)
  qed
  from a b c show ?case by blast
qed

lemma mlp_init_Inr:
  assumes "HighOrderMLP_init mk layer_type n in_width out_width hidden_layers hidden_width
             scale n_in n_out n_hidden rescale_output periodicity non_linearity
             in_segments out_segments hidden_segments normalization st
           = (Inr (net :: ('l, 'c) network), st2)"
  shows "\<exists>li ls lo kin khid kout.
           kin = \<lparr>fc_layer_type = layer_type, fc_n = py_or n_in n, fc_in_features = in_width,
                  fc_out_features = hidden_width, fc_segments = in_segments,
                  fc_rescale_output = rescale_output, fc_scale = scale,
                  fc_periodicity = periodicity\<rparr>
         \<and> khid = \<lparr>fc_layer_type = layer_type, fc_n = py_or n_hidden n,
                  fc_in_features = hidden_width, fc_out_features = hidden_width,
                  fc_segments = hidden_segments, fc_rescale_output = rescale_output,
                  fc_scale = scale, fc_periodicity = periodicity\<rparr>
         \<and> kout = \<lparr>fc_layer_type = layer_type, fc_n = py_or n_out n,
                  fc_in_features = hidden_width, fc_out_features = out_width,
                  fc_segments = out_segments, fc_rescale_output = rescale_output,
                  fc_scale = scale, fc_periodicity = periodicity\<rparr>
         \<and> mk kin = Inr li \<and> length ls = nat hidden_layers
         \<and> (\<forall>l \<in> set ls. mk khid = Inr l) \<and> mk kout = Inr lo
         \<and> children (model net) =
             [Module (next_id st) (Layer li) []]
             @ hidden_layout (case normalization of None \<Rightarrow> [] | Some nm \<Rightarrow> [nm])
                 non_linearity (Suc (next_id st)) ls
             @ final_layout non_linearity
                 (Suc (next_id st) + nat hidden_layers * round_objects non_linearity) lo
         \<and> built st2 = built st @ [kin] @ replicate (nat hidden_layers) khid @ [kout]"
proof -
  let ?kin = "\<lparr>fc_layer_type = layer_type, fc_n = py_or n_in n, fc_in_features = in_width,
                  fc_out_features = hidden_width, fc_segments = in_segments,
                  fc_rescale_output = rescale_output, fc_scale = scale,
                  fc_periodicity = periodicity\<rparr>"
  let ?khid = "\<lparr>fc_layer_type = layer_type, fc_n = py_or n_hidden n,
                  fc_in_features = hidden_width, fc_out_features = hidden_width,
                  fc_segments = hidden_segments, fc_rescale_output = rescale_output,
                  fc_scale = scale, fc_periodicity = periodicity\<rparr>"
  let ?kout = "\<lparr>fc_layer_type = layer_type, fc_n = py_or n_out n,
                  fc_in_features = hidden_width, fc_out_features = out_width,
                  fc_segments = out_segments, fc_rescale_output = rescale_output,
                  fc_scale = scale, fc_periodicity = periodicity\<rparr>"
  let ?pre = "case normalization of None \<Rightarrow> [] | Some nm \<Rightarrow> [nm]"
  let ?h = "nat hidden_layers"
  from assms obtain input_layer :: "('l, 'c) module" and st1 where
    b1: "build_layer mk ?kin st = (Inr input_layer, st1)"
    by (auto simp: HighOrderMLP_init_def Let_def split: sum.splits prod.splits)
  from assms b1 obtain layer_list :: "('l, 'c) module list" and sta where
    hl: "hidden_loop mk ?khid normalization non_linearity ?h [input_layer] st1
           = (Inr layer_list, sta)"
    by (auto simp: HighOrderMLP_init_def Let_def split: sum.splits prod.splits)
  obtain layer_list1 :: "('l, 'c) module list" and stb where
    a1: "append_non_linearity non_linearity layer_list sta = (layer_list1, stb)"
    by (cases "append_non_linearity non_linearity layer_list sta") blast
  obtain layer_list2 :: "('l, 'c) module list" and stc where
    a2: "append_non_linearity non_linearity layer_list1 stb = (layer_list2, stc)"
    by (cases "append_non_linearity non_linearity layer_list1 stb") blast
  from assms b1 hl a1 a2 obtain output_layer :: "('l, 'c) module" and std where
    b2: "build_layer mk ?kout stc = (Inr output_layer, std)"
    by (auto simp: HighOrderMLP_init_def Let_def split: sum.splits prod.splits)
  from assms b1 hl a1 a2 b2 have
    ch: "children (model net) = layer_list2 @ [output_layer]"
    and st2: "built st2 = built std"
    by (auto simp: HighOrderMLP_init_def Let_def new_module_def)
  from build_layer_Inr [OF b1] obtain li where
    li: "mk ?kin = Inr li" "input_layer = Module (next_id st) (Layer li) []"
        "st1 = st\<lparr>next_id := Suc (next_id st), built := built st @ [?kin]\<rparr>"
    by blast
  from hidden_loop_Inr [OF hl] obtain ls where
    ls: "length ls = ?h" "\<forall>l \<in> set ls. mk ?khid = Inr l"
        "layer_list = [input_layer] @ hidden_layout ?pre non_linearity (next_id st1) ls"
        "next_id sta = next_id st1 + ?h * round_objects non_linearity"
        "built sta = built st1 @ replicate ?h ?khid"
    by blast
  from build_layer_Inr [OF b2] obtain lo where
    lo: "mk ?kout = Inr lo" "output_layer = Module (next_id stc) (Layer lo) []"
        "std = stc\<lparr>next_id := Suc (next_id stc), built := built stc @ [?kout]\<rparr>"
    by blast
  have fin: "layer_list2 @ [output_layer]
               = layer_list @ final_layout non_linearity (next_id sta) lo
             \<and> built stc = built sta"
  proof (cases non_linearity)
    case None
    with a1 a2 lo(2) show ?thesis
      by (simp add: append_non_linearity_None final_layout_def)
  next
    case (Some c)
    with a1 a2 lo(2) show ?thesis
      by (auto simp: append_non_linearity_Some final_layout_def)
  qed
  have c1: "children (model net) =
             [Module (next_id st) (Layer li) []]
             @ hidden_layout ?pre non_linearity (Suc (next_id st)) ls
             @ final_layout non_linearity
                 (Suc (next_id st) + ?h * round_objects non_linearity) lo"
    using ch fin ls(3,4) li(2,3) by simp
  have c2: "built st2 = built st @ [?kin] @ replicate ?h ?khid @ [?kout]"
    using st2 lo(3) fin ls(5) li(3) by simp
  from li(1) ls(1,2) lo(1) c1 c2 show ?thesis by blast
qed

lemma hidden_layout_bodies:
  "map body (hidden_layout pre (Some c) k ls)
     = concat (map (\<lambda>l. map body pre @ [NonLinearity c, Layer l]) ls)"
  by (induction ls arbitrary: k) simp_all

lemma same_results_replicate:
  "\<forall>l \<in> set ls. r = Inr l \<Longrightarrow> \<exists>x. ls = replicate (length ls) x"
proof (induction ls)
  case Nil
  then show ?case by simp
next
  case (Cons a ls)
  then obtain x where x: "ls = replicate (length ls) x" by auto
  from Cons.prems have "\<forall>l \<in> set ls. l = a" by auto
  with x have "ls = replicate (length ls) a"
    by (metis replicate_length_same)
  then have "a # ls = replicate (length (a # ls)) a" by simp
  then show ?case by blast
qed

lemma concat_map_replicate:
  "concat (map f (replicate k x)) = concat (replicate k (f x))"
  by (induction k) simp_all

text \<open>
  C6. A HighOrderMLP constructed with a nonlinearity \<open>c\<close>: its layer sequence is the input
  layer, then for each hidden layer the normalization (when there is one), one
  nonlinearity and the hidden layer, then the nonlinearity twice in a row, then the
  output layer.
\<close>

theorem C6_nonlinearity_twice_before_output:
  assumes "HighOrderMLP_init high_order_fc_layers layer_type n in_width out_width
             hidden_layers hidden_width scale n_in n_out n_hidden rescale_output
             periodicity (Some c) in_segments out_segments hidden_segments normalization st
           = (Inr net, st2)"
  shows "\<exists>li lh lo.
           map body (children (model net)) =
             [Layer li]
             @ concat (replicate (nat hidden_layers)
                 ((case normalization of None \<Rightarrow> [] | Some nm \<Rightarrow> [body nm])
                  @ [NonLinearity c, Layer lh]))
             @ [NonLinearity c, NonLinearity c, Layer lo]"
proof -
  let ?pre = "case normalization of None \<Rightarrow> [] | Some nm \<Rightarrow> [nm]"
  from mlp_init_Inr [OF assms] obtain li ls lo khid where
    ls: "length ls = nat hidden_layers" "\<forall>l \<in> set ls. high_order_fc_layers khid = Inr l"
    and ch: "children (model net) =
               [Module (next_id st) (Layer li) []]
               @ hidden_layout ?pre (Some c) (Suc (next_id st)) ls
               @ final_layout (Some c)
                   (Suc (next_id st) + nat hidden_layers * round_objects (Some c)) lo"
    by blast
  from same_results_replicate [OF ls(2)] ls(1) obtain lh where
    lh: "ls = replicate (nat hidden_layers) lh" by auto
  have pre: "map body ?pre = (case normalization of None \<Rightarrow> [] | Some nm \<Rightarrow> [body nm])"
    by (simp split: option.splits)
  have "map body (children (model net)) =
          [Layer li]
          @ concat (replicate (nat hidden_layers) (map body ?pre @ [NonLinearity c, Layer lh]))
          @ [NonLinearity c, NonLinearity c, Layer lo]"
    unfolding ch lh
    by (simp add: hidden_layout_bodies concat_map_replicate final_layout_def)
  then show ?thesis unfolding pre by blast
qed

text \<open>
  Two hidden layers, a normalization and a nonlinearity.
\<close>

theorem C6_witness:
  "\<exists>net st2.
     HighOrderMLP_init fc_factory ''polynomial'' 3 2 1 2 4 (2 :: real) None None None False
       None (Some ''ReLU'') None None None (Some (Module 0 Normalization []))
       \<lparr>next_id = 1, built = []\<rparr> = (Inr net, st2)
     \<and> (\<exists>li lh lo.
           map body (children (model net)) =
             [Layer li]
             @ concat (replicate (nat 2) ([Normalization] @ [NonLinearity ''ReLU'', Layer lh]))
             @ [NonLinearity ''ReLU'', NonLinearity ''ReLU'', Layer lo])"
proof -
  have "\<exists>net st2.
     HighOrderMLP_init fc_factory ''polynomial'' 3 2 1 2 4 (2 :: real) None None None False
       None (Some ''ReLU'') None None None (Some (Module 0 Normalization []))
       \<lparr>next_id = 1, built = []\<rparr> = (Inr net, st2)"
    by (simp add: HighOrderMLP_init_def build_layer_def fc_factory_def
          append_non_linearity_def new_module_def py_or_def eval_nat_numeral)
  then obtain net st2 where h:
    "HighOrderMLP_init fc_factory ''polynomial'' 3 2 1 2 4 (2 :: real) None None None False
       None (Some ''ReLU'') None None None (Some (Module 0 Normalization []))
       \<lparr>next_id = 1, built = []\<rparr> = (Inr net, st2)"
    by blast
  have "\<exists>li lh lo.
           map body (children (model net)) =
             [Layer li]
             @ concat (replicate (nat 2) ([Normalization] @ [NonLinearity ''ReLU'', Layer lh]))
             @ [NonLinearity ''ReLU'', NonLinearity ''ReLU'', Layer lo]"
    using C6_nonlinearity_twice_before_output [OF h] by simp
  with h show ?thesis by blast
qed

text \<open>
  C8. The factory calls of a constructed HighOrderMLP are one for the input layer,
  \<open>hidden_layers\<close> for the hidden layers and one for the output layer, and each is made
  with order \<open>n\<close> when the order of its stage (\<open>n_in\<close>, \<open>n_hidden\<close>, \<open>n_out\<close>) is \<open>None\<close>.
\<close>

theorem C8_unset_orders_default_to_n:
  assumes "HighOrderMLP_init high_order_fc_layers layer_type n in_width out_width
             hidden_layers hidden_width scale n_in n_out n_hidden rescale_output
             periodicity non_linearity in_segments out_segments hidden_segments
             normalization st
           = (Inr net, st2)"
  shows "\<exists>kin khid kout.
           built st2 = built st @ [kin] @ replicate (nat hidden_layers) khid @ [kout]
         \<and> (n_in = None \<longrightarrow> fc_n kin = n)
         \<and> (n_hidden = None \<longrightarrow> fc_n khid = n)
         \<and> (n_out = None \<longrightarrow> fc_n kout = n)"
proof -
  from mlp_init_Inr [OF assms] obtain kin khid kout where
    k: "fc_n kin = py_or n_in n" "fc_n khid = py_or n_hidden n" "fc_n kout = py_or n_out n"
    and b: "built st2 = built st @ [kin] @ replicate (nat hidden_layers) khid @ [kout]"
    by force
  have "py_or None n = n" by (simp add: py_or_def)
  with k b show ?thesis by metis
qed

text \<open>
  With \<open>n = 3\<close> and only \<open>n_hidden = 5\<close> set, the input and output layers have order 3.
\<close>

theorem C8_witness:
  "\<exists>net st2.
     HighOrderMLP_init fc_factory ''polynomial'' 3 2 1 2 4 (2 :: real) None None (Some 5)
       False None (None :: string option) None None None None \<lparr>next_id = 0, built = []\<rparr>
       = (Inr net, st2)
     \<and> (\<exists>kin khid kout.
           built st2 = [kin] @ replicate (nat 2) khid @ [kout]
         \<and> fc_n kin = 3 \<and> fc_n kout = 3)"
proof -
  have "\<exists>net st2.
     HighOrderMLP_init fc_factory ''polynomial'' 3 2 1 2 4 (2 :: real) None None (Some 5)
       False None (None :: string option) None None None None \<lparr>next_id = 0, built = []\<rparr>
       = (Inr net, st2)"
    by (simp add: HighOrderMLP_init_def build_layer_def fc_factory_def
          append_non_linearity_def new_module_def py_or_def eval_nat_numeral)
  then obtain net :: "(real fc_kwargs, string) network" and st2 where h:
    "HighOrderMLP_init fc_factory ''polynomial'' 3 2 1 2 4 (2 :: real) None None (Some 5)
       False None (None :: string option) None None None None \<lparr>next_id = 0, built = []\<rparr>
       = (Inr net, st2)"
    by blast
  have "\<exists>kin khid kout.
           built st2 = [kin] @ replicate (nat 2) khid @ [kout]
         \<and> fc_n kin = 3 \<and> fc_n kout = 3"
    using C8_unset_orders_default_to_n [OF h] by simp
  with h show ?thesis by blast
qed

text \<open>
  C10. With \<open>hidden_layers = 0\<close> and a nonlinearity \<open>c\<close>, the layer sequence is exactly the
  input layer, two new nonlinearity objects and the output layer, all four created by
  the constructor; a normalization object that existed before the call is not among
  them.
\<close>

theorem C10_no_hidden_layers:
  assumes "HighOrderMLP_init high_order_fc_layers layer_type n in_width out_width 0
             hidden_width scale n_in n_out n_hidden rescale_output periodicity (Some c)
             in_segments out_segments hidden_segments normalization st
           = (Inr net, st2)"
  shows "(\<exists>li lo. children (model net) =
            [Module (next_id st) (Layer li) [],
             Module (next_id st + 1) (NonLinearity c) [],
             Module (next_id st + 2) (NonLinearity c) [],
             Module (next_id st + 3) (Layer lo) []])
         \<and> (\<forall>nm. normalization = Some nm \<and> ident nm < next_id st
                \<longrightarrow> nm \<notin> set (children (model net)))"
proof -
  from mlp_init_Inr [OF assms] obtain li ls lo where
    ls: "length ls = nat 0"
    and ch: "children (model net) =
               [Module (next_id st) (Layer li) []]
               @ hidden_layout (case normalization of None \<Rightarrow> [] | Some nm \<Rightarrow> [nm])
                   (Some c) (Suc (next_id st)) ls
               @ final_layout (Some c)
                   (Suc (next_id st) + nat 0 * round_objects (Some c)) lo"
    by blast
  from ls have "ls = []" by simp
  with ch have eq: "children (model net) =
            [Module (next_id st) (Layer li) [],
             Module (next_id st + 1) (NonLinearity c) [],
             Module (next_id st + 2) (NonLinearity c) [],
             Module (next_id st + 3) (Layer lo) []]"
    by (simp add: final_layout_def)
  have "nm \<notin> set (children (model net))" if "ident nm < next_id st" for nm
  proof
    assume "nm \<in> set (children (model net))"
    then have "ident nm \<in> ident ` set (children (model net))" by (rule imageI)
    with eq that show False by auto
  qed
  with eq show ?thesis by blast
qed

text \<open>
  No hidden layer, with a normalization and a nonlinearity supplied.
\<close>

theorem C10_witness:
  "\<exists>net st2.
     HighOrderMLP_init fc_factory ''polynomial'' 3 2 1 0 4 (2 :: real) None None None False
       None (Some ''ReLU'') None None None (Some (Module 0 Normalization []))
       \<lparr>next_id = 1, built = []\<rparr> = (Inr net, st2)
     \<and> (\<exists>li lo. children (model net) =
            [Module 1 (Layer li) [], Module 2 (NonLinearity ''ReLU'') [],
             Module 3 (NonLinearity ''ReLU'') [], Module 4 (Layer lo) []])
     \<and> Module 0 Normalization [] \<notin> set (children (model net))"
proof -
  have "\<exists>net st2.
     HighOrderMLP_init fc_factory ''polynomial'' 3 2 1 0 4 (2 :: real) None None None False
       None (Some ''ReLU'') None None None (Some (Module 0 Normalization []))
       \<lparr>next_id = 1, built = []\<rparr> = (Inr net, st2)"
    by (simp add: HighOrderMLP_init_def build_layer_def fc_factory_def
          append_non_linearity_def new_module_def py_or_def)
  then obtain net :: "(real fc_kwargs, string) network" and st2 where h:
    "HighOrderMLP_init fc_factory ''polynomial'' 3 2 1 0 4 (2 :: real) None None None False
       None (Some ''ReLU'') None None None (Some (Module 0 Normalization []))
       \<lparr>next_id = 1, built = []\<rparr> = (Inr net, st2)"
    by blast
  have "(\<exists>li lo. children (model net) =
            [Module 1 (Layer li) [], Module 2 (NonLinearity ''ReLU'') [],
             Module 3 (NonLinearity ''ReLU'') [], Module 4 (Layer lo) []])
     \<and> Module 0 Normalization [] \<notin> set (children (model net))"
    using C10_no_hidden_layers [OF h] by (simp add: eval_nat_numeral)
  with h show ?thesis by blast
qed

section \<open>The interpolation loop\<close>







text \<open>
  The example networks are the ones the constructor builds.
\<close>

lemma example_networks_built:
  "fst (HighOrderMLP_init (\<lambda>kwargs. Inr (fc_n kwargs)) ''polynomial'' 2 1 1 1 1 (2 :: real)
          None None None False None None None None None None \<lparr>next_id = 0, built = []\<rparr>)
     = Inr mlp_3_layers"
  "fst (HighOrderMLP_init (\<lambda>kwargs. Inr (fc_n kwargs)) ''polynomial'' 2 1 1 0 1 (2 :: real)
          None None None False None None None None None None \<lparr>next_id = 4, built = []\<rparr>)
     = Inr mlp_2_layers"
  "fst (HighOrderMLP_init (\<lambda>kwargs. Inr (fc_n kwargs)) ''polynomial'' 2 1 1 0 1 (2 :: real)
          None None None False None (Some ''ReLU'') None None None None
          \<lparr>next_id = 7, built = []\<rparr>)
     = Inr mlp_2_layers_relu"
  "fst (HighOrderMLP_init (\<lambda>kwargs. Inr (fc_n kwargs)) ''polynomial'' 4 1 1 0 1 (2 :: real)
          None None None False None (Some ''ReLU'') None None None None
          \<lparr>next_id = 12, built = []\<rparr>)
     = Inr mlp_2_layers_relu_order_4"
  by (simp_all add: HighOrderMLP_init_def build_layer_def append_non_linearity_def
        new_module_def py_or_def)




section \<open>Layout of the expansion\<close>

lemma ravel_less:
  "length idx = length ds \<Longrightarrow> \<forall>k < length ds. idx ! k < ds ! k \<Longrightarrow>
   ds \<noteq> [] \<Longrightarrow> ravel ds idx < prod_list ds"
proof (induction ds idx rule: ravel.induct)
  case (1 d ds i idx)
  from "1.prems" have i: "i < d" by force
  show ?case
  proof (cases "ds = []")
    case True
    with "1.prems" i show ?thesis by simp
  next
    case False
    from "1.prems" have len: "length idx = length ds" by simp
    from "1.prems" have bnd: "\<forall>k < length ds. idx ! k < ds ! k" by force
    from "1.IH" [OF len bnd False] have r: "ravel ds idx < prod_list ds" .
    have "i * prod_list ds + ravel ds idx < i * prod_list ds + prod_list ds"
      using r by simp
    also have "\<dots> = Suc i * prod_list ds" by simp
    also have "\<dots> \<le> d * prod_list ds"
      using i by (intro mult_le_mono1) simp
    finally show ?thesis by simp
  qed
qed simp_all

lemma unravel_ravel:
  "length idx = length ds \<Longrightarrow> \<forall>k < length ds. idx ! k < ds ! k \<Longrightarrow>
   unravel ds (ravel ds idx) = idx"
proof (induction ds idx rule: ravel.induct)
  case (1 d ds i idx)
  from "1.prems" have len: "length idx = length ds" by simp
  from "1.prems" have bnd: "\<forall>k < length ds. idx ! k < ds ! k" by force
  show ?case
  proof (cases "ds = []")
    case True
    with len show ?thesis by simp
  next
    case False
    from ravel_less [OF len bnd False] have r: "ravel ds idx < prod_list ds" .
    then have "(i * prod_list ds + ravel ds idx) div prod_list ds = i"
      "(i * prod_list ds + ravel ds idx) mod prod_list ds = ravel ds idx"
      by simp_all
    with "1.IH" [OF len bnd] show ?thesis by simp
  qed
qed simp_all

lemma permute_to_last:
  assumes "shape res = [n, B, C, H, W]"
  shows "\<exists>res1. permute [1, 3, 4, 2, 0] res = Inr res1
           \<and> shape res1 = [B, H, W, C, n]
           \<and> (\<forall>b h w c j. elem res1 [b, h, w, c, j] = elem res [j, b, c, h, w])"
  using assms by (simp add: permute_def upt_rec)

lemma reshape_merge_last:
  assumes "shape res1 = [B, H, W, C, n]"
  shows "\<exists>res2. reshape [shape res1 ! 0, shape res1 ! 1, shape res1 ! 2,
                         shape res1 ! 3 * shape res1 ! 4] res1 = Inr res2
           \<and> shape res2 = [B, H, W, C * n]
           \<and> (\<forall>b < B. \<forall>h < H. \<forall>w < W. \<forall>c < C. \<forall>j < n.
                 elem res2 [b, h, w, c * n + j] = elem res1 [b, h, w, c, j])"
proof -
  let ?res2 = "\<lparr>shape = [B, H, W, C * n],
                elem = (\<lambda>idx. elem res1 (unravel (shape res1) (ravel [B, H, W, C * n] idx)))\<rparr>"
  have r: "reshape [shape res1 ! 0, shape res1 ! 1, shape res1 ! 2,
                    shape res1 ! 3 * shape res1 ! 4] res1 = Inr ?res2"
    using assms by (simp add: reshape_def)
  have e: "elem ?res2 [b, h, w, c * n + j] = elem res1 [b, h, w, c, j]"
    if "b < B" "h < H" "w < W" "c < C" "j < n" for b h w c j
  proof -
    have same: "ravel [B, H, W, C * n] [b, h, w, c * n + j]
                  = ravel [B, H, W, C, n] [b, h, w, c, j]"
      by (simp add: algebra_simps)
    have bnd: "\<forall>k < length [B, H, W, C, n]. [b, h, w, c, j] ! k < [B, H, W, C, n] ! k"
      using that by (auto simp: less_Suc_eq nth_Cons')
    have "unravel [B, H, W, C, n] (ravel [B, H, W, C, n] [b, h, w, c, j]) = [b, h, w, c, j]"
      by (rule unravel_ravel [OF _ bnd]) simp
    with same assms show ?thesis by simp
  qed
  from r e show ?thesis by (intro exI [of _ ?res2]) simp
qed

lemma permute_to_second:
  assumes "shape res2 = [B, H, W, M]"
  shows "\<exists>out. permute [0, 3, 1, 2] res2 = Inr out
           \<and> shape out = [B, M, H, W]
           \<and> (\<forall>b m h w. elem out [b, m, h, w] = elem res2 [b, h, w, m])"
  using assms by (simp add: permute_def upt_rec)

text \<open>
  C7. For an input of shape \<open>(B, C, H, W)\<close> and a basis that returns its \<open>n\<close> coefficient
  tensors stacked along the first axis (shape \<open>(n, B, C, H, W)\<close>), \<open>Expansion2d.__call__\<close>
  returns a tensor of shape \<open>(B, C * n, H, W)\<close> whose channel \<open>c * n + j\<close> holds, element by
  element, coefficient \<open>j\<close> of input channel \<open>c\<close>.
\<close>

theorem C7_expansion_layout:
  assumes "shape inputs = [B, C, H, W]"
    and "basis inputs = Inr res"
    and "shape res = [n, B, C, H, W]"
    and "\<forall>j < n. \<forall>b < B. \<forall>c < C. \<forall>h < H. \<forall>w < W.
           elem res [j, b, c, h, w] = coef j (elem inputs [b, c, h, w])"
  shows "\<exists>out. Expansion2d_call basis inputs = Inr out
           \<and> shape out = [B, C * n, H, W]
           \<and> (\<forall>b < B. \<forall>c < C. \<forall>j < n. \<forall>h < H. \<forall>w < W.
                 elem out [b, c * n + j, h, w] = coef j (elem inputs [b, c, h, w]))"
proof -
  from permute_to_last [OF assms(3)] obtain res1 where
    p1: "permute [1, 3, 4, 2, 0] res = Inr res1"
    and s1: "shape res1 = [B, H, W, C, n]"
    and e1: "\<And>b h w c j. elem res1 [b, h, w, c, j] = elem res [j, b, c, h, w]"
    by blast
  from reshape_merge_last [OF s1] obtain res2 where
    p2: "reshape [shape res1 ! 0, shape res1 ! 1, shape res1 ! 2,
                  shape res1 ! 3 * shape res1 ! 4] res1 = Inr res2"
    and s2: "shape res2 = [B, H, W, C * n]"
    and e2: "\<And>b h w c j. b < B \<Longrightarrow> h < H \<Longrightarrow> w < W \<Longrightarrow> c < C \<Longrightarrow> j < n \<Longrightarrow>
               elem res2 [b, h, w, c * n + j] = elem res1 [b, h, w, c, j]"
    by blast
  from permute_to_second [OF s2] obtain out where
    p3: "permute [0, 3, 1, 2] res2 = Inr out"
    and s3: "shape out = [B, C * n, H, W]"
    and e3: "\<And>b m h w. elem out [b, m, h, w] = elem res2 [b, h, w, m]"
    by blast
  have call: "Expansion2d_call basis inputs = Inr out"
    using assms(2) p1 p2 p3 by (simp add: Expansion2d_call_def)
  have "elem out [b, c * n + j, h, w] = coef j (elem inputs [b, c, h, w])"
    if "b < B" "c < C" "j < n" "h < H" "w < W" for b c j h w
    using that e3 e2 e1 assms(4) by simp
  with call s3 show ?thesis by blast
qed

text \<open>
  The Lagrange basis of order 2 on a \<open>1 x 2 x 1 x 2\<close> input.
\<close>

theorem C7_witness:
  "\<exists>out. Expansion2d_call (stack_basis 2 lagrange_2) inputs_1_2_1_2 = Inr out
      \<and> shape out = [1, 4, 1, 2]
      \<and> elem out [0, 3, 0, 1] = lagrange_2 1 (elem inputs_1_2_1_2 [0, 1, 0, 1])
      \<and> elem out [0, 2, 0, 1] = lagrange_2 0 (elem inputs_1_2_1_2 [0, 1, 0, 1])
      \<and> elem out [0, 1, 0, 0] = lagrange_2 1 (elem inputs_1_2_1_2 [0, 0, 0, 0])"
proof -
  let ?res = "\<lparr>shape = 2 # shape inputs_1_2_1_2,
               elem = (\<lambda>idx. lagrange_2 (hd idx) (elem inputs_1_2_1_2 (tl idx)))\<rparr>"
  have h1: "shape inputs_1_2_1_2 = [1, 2, 1, 2]" by simp
  have h2: "stack_basis 2 lagrange_2 inputs_1_2_1_2 = Inr ?res"
    by (simp add: stack_basis_def)
  have h3: "shape ?res = [2, 1, 2, 1, 2]" by simp
  have h4: "\<forall>j < 2. \<forall>b < 1. \<forall>c < 2. \<forall>h < 1. \<forall>w < 2.
              elem ?res [j, b, c, h, w] = lagrange_2 j (elem inputs_1_2_1_2 [b, c, h, w])"
    by (intro allI impI) simp
  from C7_expansion_layout [where basis = "stack_basis 2 lagrange_2" and coef = lagrange_2
      and inputs = inputs_1_2_1_2 and res = ?res, OF h1 h2 h3 h4]
  obtain out where
    call: "Expansion2d_call (stack_basis 2 lagrange_2) inputs_1_2_1_2 = Inr out"
    and sh: "shape out = [1, 2 * 2, 1, 2]"
    and el: "\<forall>b < 1. \<forall>c < 2. \<forall>j < 2. \<forall>h < 1. \<forall>w < 2.
               elem out [b, c * 2 + j, h, w] = lagrange_2 j (elem inputs_1_2_1_2 [b, c, h, w])"
    by (elim exE conjE)
  from el [rule_format, of 0 1 1 0 1] have a:
    "elem out [0, 3, 0, 1] = lagrange_2 1 (elem inputs_1_2_1_2 [0, 1, 0, 1])"
    by simp
  from el [rule_format, of 0 1 0 0 1] have b:
    "elem out [0, 2, 0, 1] = lagrange_2 0 (elem inputs_1_2_1_2 [0, 1, 0, 1])"
    by simp
  from el [rule_format, of 0 0 1 0 0] have c:
    "elem out [0, 1, 0, 0] = lagrange_2 1 (elem inputs_1_2_1_2 [0, 0, 0, 0])"
    by simp
  from sh have sh4: "shape out = [1, 4, 1, 2]" by simp
  from call sh4 a b c show ?thesis by (intro exI [of _ out] conjI)
qed

end
